theory Spec2Isabelle
  imports Main "HOL-Library.Word" "HOL-Library.Sublist"
begin

unbundle bit_operations_syntax

section \<open>The publisher of log-courier: data model\<close>

text \<open>
  The development embeds the publisher (\<^verbatim>\<open>PendingPayload\<close>, \<^verbatim>\<open>Publisher\<close> and the
  event loop \<^verbatim>\<open>Publisher.Publish\<close>). Pointers to payloads are addresses into an explicit
  store \<open>heap\<close> (a list; the address of a payload is its index, and allocation appends).
  The nil pointer is \<open>None\<close>. Byte slices and Go strings are \<open>string\<close>s (lists of 8-bit
  characters). Go's \<^verbatim>\<open>int\<close> is \<open>int\<close>: on the 64-bit targets of the program a
  \<^verbatim>\<open>uint32\<close> converts to \<^verbatim>\<open>int\<close> without loss, and the counters stay far below
  \<open>2 ^ 63\<close>. Points in time are integers.
\<close>

type_synonym addr = nat
type_synonym bytes = string
type_synonym time = int

datatype error =
    BinaryWriteInvalidType
  | AcknCorruption nat
  | PongOverflow nat
  | UnexpectedPong
  | UnknownMessage bytes
  | ServerTimeout
  | PingTimeout
  | TransportError

text \<open>
  What a call does: it returns with a nil error (\<open>Done\<close>), returns an error
  (\<open>Failed\<close>), or the runtime panics (nil dereference, slice bounds).
\<close>

datatype outcome = Done | Failed error | Panicked

record 'e PendingPayload =
  nextp :: "addr option"
  nonce :: bytes
  events :: "'e list"
  num_events :: int
  ack_events :: int
  payload_start :: int
  payload :: "bytes option"
  timeout :: "time option"

record NetworkConfig =
  Timeout :: int
  Reconnect :: int

text \<open>
  The struct \<^verbatim>\<open>Publisher\<close>, followed by the memory and the collaborators it acts on:
  the store of payloads, the values sent to the registrar channel (in order), whether the
  transport is connected, and the frames handed to \<^verbatim>\<open>transport.Write\<close>. The channel
  \<^verbatim>\<open>can_send\<close> is either the credit channel of the transport (\<open>True\<close>) or nil.
\<close>

record 'e Publisher =
  config :: NetworkConfig
  hostname :: string
  can_send :: bool
  pending_ping :: bool
  pending_payloads :: "bytes \<rightharpoonup> addr"
  first_payload :: "addr option"
  last_payload :: "addr option"
  num_payloads :: int
  out_of_sync :: int
  heap :: "'e PendingPayload list"
  registrar_chan :: "'e list list"
  transport_connected :: bool
  transport_written :: "(string \<times> bytes option) list"

definition max_pending_payloads :: int where
  "max_pending_payloads = 100"

text \<open>
  The type \<^verbatim>\<open>FileEvent\<close>, \<^verbatim>\<open>json.Marshal\<close> and the zlib writer are not part of the
  sources at hand; they are parameters. \<open>json_Marshal L h e\<close> is the encoding of the
  mapping of event \<open>e\<close> once its field \<^verbatim>\<open>host\<close> has been set to \<open>h\<close>, or \<open>None\<close>
  when \<^verbatim>\<open>json.Marshal\<close> reports an error; \<open>zlib_compress L\<close> is the level 3 stream of
  what was written to the compressor. Events are handles of type \<open>'e\<close>.
\<close>

record 'e codec =
  json_Marshal :: "string \<Rightarrow> 'e \<Rightarrow> bytes option"
  zlib_compress :: "bytes \<Rightarrow> bytes"

section \<open>Frame generation\<close>

text \<open>
  \<^verbatim>\<open>binary.Write(w, binary.BigEndian, data)\<close> of Go's \<^verbatim>\<open>encoding/binary\<close> accepts
  fixed-size values only. An untyped constant passed as \<^verbatim>\<open>interface{}\<close> has type
  \<^verbatim>\<open>int\<close>, which has no fixed size: the call writes nothing and returns the error
  \<^verbatim>\<open>binary.Write: invalid type int\<close>. A \<^verbatim>\<open>uint32\<close> is written as four bytes, the most
  significant first.
\<close>

datatype go_data = GoInt int | GoUint32 "32 word"

definition PutUint32 :: "32 word \<Rightarrow> bytes" where
  "PutUint32 v = [char_of (unat (drop_bit 24 v)), char_of (unat (drop_bit 16 v)),
                  char_of (unat (drop_bit 8 v)), char_of (unat v)]"

fun binary_Write :: "go_data \<Rightarrow> error + bytes" where
  "binary_Write (GoInt n) = Inl BinaryWriteInvalidType"
| "binary_Write (GoUint32 v) = Inr (PutUint32 v)"

text \<open>
  \<^verbatim>\<open>bufferJdatDataEvent\<close>: the result is the error, or the bytes written to the output.
  Writing to the compressor (which writes to a \<^verbatim>\<open>bytes.Buffer\<close>) does not fail.
\<close>

definition bufferJdatDataEvent :: "'e codec \<Rightarrow> string \<Rightarrow> 'e \<Rightarrow> error + bytes" where
  "bufferJdatDataEvent L host event =
     (case json_Marshal L host event of
        None \<Rightarrow>
          (case binary_Write (GoInt 2) of
             Inl err \<Rightarrow> Inl err
           | Inr b \<Rightarrow> Inr (b @ ''{}''))
      | Some val \<Rightarrow>
          (case binary_Write (GoUint32 (word_of_nat (length val))) of
             Inl err \<Rightarrow> Inl err
           | Inr b \<Rightarrow> Inr (b @ val)))"

text \<open>The loop of \<^verbatim>\<open>Generate\<close> over the events: it stops at the first error.\<close>

fun buffer_events :: "'e codec \<Rightarrow> string \<Rightarrow> 'e list \<Rightarrow> error + bytes" where
  "buffer_events L host [] = Inr []"
| "buffer_events L host (event # rest) =
     (case bufferJdatDataEvent L host event of
        Inl err \<Rightarrow> Inl err
      | Inr b \<Rightarrow>
          (case buffer_events L host rest of
             Inl err \<Rightarrow> Inl err
           | Inr bs \<Rightarrow> Inr (b @ bs)))"

text \<open>
  \<^verbatim>\<open>PendingPayload.Generate\<close>. The slice \<^verbatim>\<open>pp.events[pp.ack_events:]\<close> panics when
  \<^verbatim>\<open>ack_events\<close> is outside \<open>0 .. len(events)\<close>.
\<close>

definition Generate ::
  "'e codec \<Rightarrow> string \<Rightarrow> 'e PendingPayload \<Rightarrow> outcome \<times> 'e PendingPayload" where
  "Generate L host pp =
     (if ack_events pp < 0 \<or> int (length (events pp)) < ack_events pp then (Panicked, pp)
      else
        (case buffer_events L host (drop (nat (ack_events pp)) (events pp)) of
           Inl err \<Rightarrow> (Failed err, pp)
         | Inr stream \<Rightarrow>
             (Done, pp\<lparr>payload := Some (nonce pp @ zlib_compress L stream),
                       payload_start := ack_events pp\<rparr>)))"

definition NewPendingPayload ::
  "'e codec \<Rightarrow> 'e list \<Rightarrow> bytes \<Rightarrow> string \<Rightarrow> outcome \<times> 'e PendingPayload" where
  "NewPendingPayload L evs n host =
     Generate L host
       \<lparr>nextp = None, nonce = n, events = evs, num_events = int (length evs),
        ack_events = 0, payload_start = 0, payload = None, timeout = None\<rparr>"

section \<open>Acknowledgements\<close>

definition Uint32 :: "bytes \<Rightarrow> 32 word" where
  "Uint32 b = word_of_nat (of_char (b ! 3)) OR push_bit 8 (word_of_nat (of_char (b ! 2)))
           OR push_bit 16 (word_of_nat (of_char (b ! 1)))
           OR push_bit 24 (word_of_nat (of_char (b ! 0)))"

text \<open>
  The loop of \<^verbatim>\<open>processAck\<close> that hands acknowledged events to the registrar in order.
  \<open>pa\<close> is the local \<^verbatim>\<open>payload\<close> (not nil when the loop is entered) and \<open>oos\<close> the local
  \<^verbatim>\<open>out_of_sync\<close>. The loop follows \<^verbatim>\<open>next\<close>; on a cyclic list it would not return,
  which is the value \<open>None\<close>. An address outside the store stands for no Go pointer and
  is treated as a panic. The slice \<^verbatim>\<open>events[:ack_events]\<close> is taken within the length of
  \<^verbatim>\<open>events\<close>; beyond it (Go allows a bound up to the capacity) the model panics.
\<close>

partial_function (option) drain ::
  "addr \<Rightarrow> int \<Rightarrow> ('e, 'z) Publisher_scheme \<Rightarrow> (outcome \<times> ('e, 'z) Publisher_scheme) option"
where
  "drain pa oos p =
     (if length (heap p) \<le> pa then Some (Panicked, p)
      else if ack_events (heap p ! pa) = 0 then Some (Done, p)
      else if ack_events (heap p ! pa) \<noteq> int (length (events (heap p ! pa))) then
        (if ack_events (heap p ! pa) < 0
            \<or> int (length (events (heap p ! pa))) < ack_events (heap p ! pa)
         then Some (Panicked, p)
         else Some (Done,
           p\<lparr>registrar_chan :=
                registrar_chan p @ [take (nat (ack_events (heap p ! pa))) (events (heap p ! pa))],
             heap := (heap p)[pa := (heap p ! pa)
               \<lparr>events := drop (nat (ack_events (heap p ! pa))) (events (heap p ! pa)),
                num_events := int (length (drop (nat (ack_events (heap p ! pa)))
                                             (events (heap p ! pa)))),
                ack_events := 0,
                payload_start := 0\<rparr>]\<rparr>))
      else
        (case nextp (heap p ! pa) of
           None \<Rightarrow>
             Some (Done,
               p\<lparr>registrar_chan := registrar_chan p @ [events (heap p ! pa)],
                 first_payload := None,
                 num_payloads := num_payloads p - 1,
                 out_of_sync := oos - 1,
                 can_send := True\<rparr>)
         | Some pb \<Rightarrow>
             drain pb (oos - 1)
               (p\<lparr>registrar_chan := registrar_chan p @ [events (heap p ! pa)],
                  first_payload := Some pb,
                  num_payloads := num_payloads p - 1,
                  out_of_sync := oos - 1,
                  can_send := True\<rparr>)))"

declare drain.simps [code]

text \<open>
  The first part of \<^verbatim>\<open>processAck\<close>, on the payload found under the nonce: a full
  acknowledgement, a partial one, or nothing.
\<close>

definition record_ack ::
  "bytes \<Rightarrow> 32 word \<Rightarrow> addr \<Rightarrow> ('e, 'z) Publisher_scheme \<Rightarrow> ('e, 'z) Publisher_scheme" where
  "record_ack n sequence pa p =
     (if uint sequence \<ge> num_events (heap p ! pa) - payload_start (heap p ! pa) then
        p\<lparr>heap := (heap p)[pa := (heap p ! pa)
              \<lparr>ack_events := int (length (events (heap p ! pa))), payload := None\<rparr>],
          pending_payloads := (pending_payloads p)(n := None)\<rparr>
      else if uint sequence > num_events (heap p ! pa) - ack_events (heap p ! pa) then
        p\<lparr>heap := (heap p)[pa := (heap p ! pa)
              \<lparr>ack_events := uint sequence + payload_start (heap p ! pa), payload := None\<rparr>]\<rparr>
      else p)"

text \<open>
  The last part of \<^verbatim>\<open>processAck\<close>: the deadline of the first payload when out of sync.
  \<^verbatim>\<open>p.first_payload.timeout\<close> is evaluated only when \<^verbatim>\<open>out_of_sync\<close> is not zero, and
  panics when \<^verbatim>\<open>first_payload\<close> is nil.
\<close>

definition arm_first_timeout ::
  "time \<Rightarrow> ('e, 'z) Publisher_scheme \<Rightarrow> outcome \<times> ('e, 'z) Publisher_scheme" where
  "arm_first_timeout now p =
     (if out_of_sync p \<noteq> 0 then
        (case first_payload p of
           None \<Rightarrow> (Panicked, p)
         | Some fa \<Rightarrow>
             if length (heap p) \<le> fa then (Panicked, p)
             else if timeout (heap p ! fa) = None then
               (Done, p\<lparr>heap := (heap p)[fa := (heap p ! fa)
                                   \<lparr>timeout := Some (now + Timeout (config p))\<rparr>]\<rparr>)
             else (Done, p))
      else (Done, p))"

definition processAck ::
  "bytes \<Rightarrow> time \<Rightarrow> ('e, 'z) Publisher_scheme \<Rightarrow> (outcome \<times> ('e, 'z) Publisher_scheme) option"
where
  "processAck message now p =
     (if length message \<noteq> 20 then Some (Failed (AcknCorruption (length message)), p)
      else
        (case pending_payloads p (take 16 message) of
           None \<Rightarrow> Some (Done, p)
         | Some pa \<Rightarrow>
             if length (heap p) \<le> pa then Some (Panicked, p)
             else
               (case (if Some pa = first_payload p
                      then drain pa (out_of_sync p + 1)
                             (record_ack (take 16 message) (Uint32 (drop 16 message)) pa p)
                      else if ack_events (heap p ! pa) = 0
                      then Some (Done,
                             (record_ack (take 16 message) (Uint32 (drop 16 message)) pa p)
                               \<lparr>out_of_sync := out_of_sync p + 1\<rparr>)
                      else Some (Done,
                             record_ack (take 16 message) (Uint32 (drop 16 message)) pa p)) of
                  None \<Rightarrow> None
                | Some (Done, p') \<Rightarrow> Some (arm_first_timeout now p')
                | Some (r, p') \<Rightarrow> Some (r, p'))))"

definition processPong :: "bytes \<Rightarrow> ('e, 'z) Publisher_scheme \<Rightarrow> outcome \<times> ('e, 'z) Publisher_scheme"
where
  "processPong message p =
     (if length message \<noteq> 0 then (Failed (PongOverflow (length message)), p)
      else if \<not> pending_ping p then (Failed UnexpectedPong, p)
      else (Done, p\<lparr>pending_ping := False\<rparr>))"

section \<open>Sending\<close>

text \<open>
  \<^verbatim>\<open>transport.Write\<close>: whether the transport reports an error is decided by the
  environment (\<open>wr\<close> is the error, if any); a frame that was accepted is logged.
\<close>

definition transport_Write ::
  "string \<Rightarrow> bytes option \<Rightarrow> error option \<Rightarrow> ('e, 'z) Publisher_scheme
     \<Rightarrow> outcome \<times> ('e, 'z) Publisher_scheme" where
  "transport_Write signature body wr p =
     (case wr of
        Some err \<Rightarrow> (Failed err, p)
      | None \<Rightarrow> (Done, p\<lparr>transport_written := transport_written p @ [(signature, body)]\<rparr>))"

text \<open>
  \<^verbatim>\<open>generateNonce\<close> draws sixteen times from \<^verbatim>\<open>rand.Intn(255)\<close>. The random source is
  the list \<open>rnd\<close> of raw draws, consumed from the front; a source that runs dry before a
  nonce is found stands for a loop that has not returned (\<open>None\<close>).
\<close>

definition generateNonce :: "nat list \<Rightarrow> (bytes \<times> nat list) option" where
  "generateNonce rnd =
     (if length rnd < 16 then None
      else Some (map (\<lambda>r. char_of (r mod 255)) (take 16 rnd), drop 16 rnd))"

function fresh_nonce :: "(bytes \<rightharpoonup> addr) \<Rightarrow> nat list \<Rightarrow> bytes option" where
  "fresh_nonce m rnd =
     (case generateNonce rnd of
        None \<Rightarrow> None
      | Some (n, rnd') \<Rightarrow> if m n = None then Some n else fresh_nonce m rnd')"
  by pat_completeness auto
termination
  by (relation "measure (\<lambda>(m, rnd). length rnd)")
     (auto simp: generateNonce_def split: if_splits)

text \<open>
  \<^verbatim>\<open>sendNewPayload\<close>. The new payload is stored at the next free address. When
  \<^verbatim>\<open>first_payload\<close> is not nil, \<^verbatim>\<open>p.last_payload.next\<close> is assigned, which panics on a
  nil \<^verbatim>\<open>last_payload\<close>.
\<close>

definition sendNewPayload ::
  "'e codec \<Rightarrow> 'e list \<Rightarrow> nat list \<Rightarrow> error option \<Rightarrow> ('e, 'z) Publisher_scheme
     \<Rightarrow> (outcome \<times> ('e, 'z) Publisher_scheme) option" where
  "sendNewPayload L evs rnd wr p =
     (case fresh_nonce (pending_payloads p) rnd of
        None \<Rightarrow> None
      | Some n \<Rightarrow>
          (case NewPendingPayload L evs n (hostname p) of
             (Done, pl) \<Rightarrow>
               (let pa = length (heap p);
                    p1 = p\<lparr>heap := heap p @ [pl],
                           pending_payloads := (pending_payloads p)(n \<mapsto> pa)\<rparr>
                in
                  if first_payload p1 = None then
                    Some (transport_Write ''JDAT'' (payload pl) wr
                      (p1\<lparr>first_payload := Some pa, last_payload := Some pa,
                          num_payloads := num_payloads p1 + 1\<rparr>))
                  else
                    (case last_payload p1 of
                       None \<Rightarrow> Some (Panicked, p1)
                     | Some la \<Rightarrow>
                         if length (heap p1) \<le> la then Some (Panicked, p1)
                         else
                           Some (transport_Write ''JDAT'' (payload pl) wr
                             (p1\<lparr>heap := (heap p1)[la := (heap p1 ! la)\<lparr>nextp := Some pa\<rparr>],
                                 last_payload := Some pa,
                                 num_payloads := num_payloads p1 + 1\<rparr>))))
           | (r, pl) \<Rightarrow> Some (r, p)))"

text \<open>
  \<^verbatim>\<open>checkResend\<close>. The result carries the flag \<^verbatim>\<open>resent\<close>. The receiver of
  \<^verbatim>\<open>payload.timeout.Before\<close> is dereferenced first: a nil \<^verbatim>\<open>first_payload\<close> or a nil
  \<^verbatim>\<open>timeout\<close> panics. One reading of the clock (\<open>now\<close>) serves the whole call.
\<close>

definition regenerate ::
  "'e codec \<Rightarrow> addr \<Rightarrow> ('e, 'z) Publisher_scheme \<Rightarrow> outcome \<times> ('e, 'z) Publisher_scheme" where
  "regenerate L pa p =
     (if payload (heap p ! pa) = None then
        (case Generate L (hostname p) (heap p ! pa) of
           (Done, pl) \<Rightarrow> (Done, p\<lparr>heap := (heap p)[pa := pl]\<rparr>)
         | (r, pl) \<Rightarrow> (r, p))
      else (Done, p))"

definition checkResend ::
  "'e codec \<Rightarrow> time \<Rightarrow> error option \<Rightarrow> ('e, 'z) Publisher_scheme
     \<Rightarrow> (bool \<times> outcome) \<times> ('e, 'z) Publisher_scheme" where
  "checkResend L now wr p =
     (case first_payload p of
        None \<Rightarrow> ((False, Panicked), p)
      | Some pa \<Rightarrow>
          if length (heap p) \<le> pa then ((False, Panicked), p)
          else
            (case timeout (heap p ! pa) of
               None \<Rightarrow> ((False, Panicked), p)
             | Some deadline \<Rightarrow>
                 if deadline < now then
                   (case regenerate L pa p of
                      (Done, p1) \<Rightarrow>
                        (let p2 = p1\<lparr>heap := (heap p1)[pa := (heap p1 ! pa)
                                     \<lparr>timeout := Some (now + Timeout (config p1))\<rparr>]\<rparr>
                         in case transport_Write ''JDAT'' (payload (heap p2 ! pa)) wr p2 of
                              (Done, p3) \<Rightarrow> ((True, Done), p3)
                            | (r, p3) \<Rightarrow> ((False, r), p3))
                    | (r, p1) \<Rightarrow> ((False, r), p1))
                 else ((False, Done), p)))"

section \<open>The event loop\<close>

text \<open>
  \<^verbatim>\<open>Publisher.Publish\<close> as a transition system. \<open>control\<close> says where the goroutine is:
  about to call \<^verbatim>\<open>transport.Connect\<close>, waiting in the \<^verbatim>\<open>select\<close> of the inner loop,
  returned, or stopped by a panic. The locals of \<^verbatim>\<open>Publish\<close> follow; \<open>input_toggle\<close> is
  the input channel (\<open>True\<close>) or nil. \<open>input_log\<close> records the batches taken from the input
  channel, in order of receipt. The timer is not part of the state: when it fires is
  decided by the environment, like every other event.
\<close>

datatype control = AtConnect | InSelect | Returned | Crashed

record 'e PublishLoop = "'e Publisher" +
  control :: control
  input_toggle :: bool
  retry_payload :: "addr option"
  shutdown :: bool
  input_log :: "'e list list"

text \<open>
  One event is one pass through the outer loop up to the inner loop, or one case of the
  inner \<^verbatim>\<open>select\<close>. The environment decides what the transport answers (the error of a
  \<^verbatim>\<open>Write\<close>, if any), what the clock reads and what the random source draws.
\<close>

datatype 'e event =
    ConnectOk
  | ConnectFailedWait
  | ConnectFailedShutdown
  | CanSend time "error option"
  | Input "'e list" "nat list" "error option"
  | Read "error + (bytes \<times> bytes)" time
  | Timer time "error option"
  | Shutdown

definition NewPublisher :: "NetworkConfig \<Rightarrow> string \<Rightarrow> 'e PublishLoop" where
  "NewPublisher cfg host =
     \<lparr>config = cfg, hostname = host, can_send = False, pending_ping = False,
      pending_payloads = Map.empty, first_payload = None, last_payload = None,
      num_payloads = 0, out_of_sync = 0, heap = [], registrar_chan = [],
      transport_connected = False, transport_written = [],
      control = AtConnect, input_toggle = False, retry_payload = None, shutdown = False,
      input_log = []\<rparr>"

text \<open>
  \<^verbatim>\<open>break SelectLoop\<close>: disconnect, retry from the first payload, connect again.
  \<^verbatim>\<open>break PublishLoop\<close>: disconnect and return.
\<close>

definition break_SelectLoop :: "'e PublishLoop \<Rightarrow> 'e PublishLoop" where
  "break_SelectLoop s =
     s\<lparr>transport_connected := False, retry_payload := first_payload s, control := AtConnect\<rparr>"

definition break_PublishLoop :: "'e PublishLoop \<Rightarrow> 'e PublishLoop" where
  "break_PublishLoop s = s\<lparr>transport_connected := False, control := Returned\<rparr>"

definition leave :: "outcome \<Rightarrow> 'e PublishLoop \<Rightarrow> 'e PublishLoop" where
  "leave r s =
     (case r of
        Done \<Rightarrow> s
      | Failed err \<Rightarrow> break_SelectLoop s
      | Panicked \<Rightarrow> s\<lparr>control := Crashed\<rparr>)"

text \<open>
  The timer is reset from \<^verbatim>\<open>p.first_payload.timeout\<close>: the state does not change, but the
  expression panics when \<^verbatim>\<open>first_payload\<close> is nil.
\<close>

definition reset_timer_first :: "'e PublishLoop \<Rightarrow> 'e PublishLoop" where
  "reset_timer_first s =
     (case first_payload s of
        None \<Rightarrow> s\<lparr>control := Crashed\<rparr>
      | Some fa \<Rightarrow> if length (heap s) \<le> fa then s\<lparr>control := Crashed\<rparr> else s)"

text \<open>
  The loop that moves \<^verbatim>\<open>retry_payload\<close> to the next payload with events left to
  acknowledge. It follows \<^verbatim>\<open>next\<close> as the loop of \<^verbatim>\<open>processAck\<close> does.
\<close>

partial_function (option) next_unacked ::
  "'e PendingPayload list \<Rightarrow> addr \<Rightarrow> (outcome \<times> addr option) option" where
  "next_unacked h ra =
     (if length h \<le> ra then Some (Panicked, None)
      else
        (case nextp (h ! ra) of
           None \<Rightarrow> Some (Done, None)
         | Some rb \<Rightarrow>
             if length h \<le> rb then Some (Panicked, None)
             else if ack_events (h ! rb) \<noteq> int (length (events (h ! rb))) then Some (Done, Some rb)
             else next_unacked h rb))"

declare next_unacked.simps [code]

definition enable_input :: "'e PublishLoop \<Rightarrow> 'e PublishLoop" where
  "enable_input s = (if shutdown s then s else s\<lparr>input_toggle := True\<rparr>)"

definition on_can_send ::
  "'e codec \<Rightarrow> time \<Rightarrow> error option \<Rightarrow> 'e PublishLoop \<Rightarrow> 'e PublishLoop option" where
  "on_can_send L now wr s =
     (case retry_payload s of
        Some ra \<Rightarrow>
          if length (heap s) \<le> ra then Some (s\<lparr>control := Crashed\<rparr>)
          else
            (case regenerate L ra s of
               (Done, s1) \<Rightarrow>
                 (let s2 = s1\<lparr>heap := (heap s1)[ra := (heap s1 ! ra)\<lparr>timeout := None\<rparr>]\<rparr>
                  in case transport_Write ''JDAT'' (payload (heap s2 ! ra)) wr s2 of
                       (Done, s3) \<Rightarrow>
                         (case next_unacked (heap s3) ra of
                            None \<Rightarrow> None
                          | Some (Done, r') \<Rightarrow> Some (reset_timer_first (s3\<lparr>retry_payload := r'\<rparr>))
                          | Some (r, r') \<Rightarrow> Some (leave r s3))
                     | (r, s3) \<Rightarrow> Some (leave r s3))
             | (r, s1) \<Rightarrow> Some (leave r s1))
      | None \<Rightarrow>
          if out_of_sync s \<noteq> 0 then
            (case checkResend L now wr s of
               ((resent, Done), s1) \<Rightarrow> if resent then Some s1 else Some (enable_input s1)
             | ((resent, r), s1) \<Rightarrow> Some (leave r s1))
          else Some (enable_input s))"

definition on_input ::
  "'e codec \<Rightarrow> 'e list \<Rightarrow> nat list \<Rightarrow> error option \<Rightarrow> 'e PublishLoop \<Rightarrow> 'e PublishLoop option"
where
  "on_input L evs rnd wr s =
     (case sendNewPayload L evs rnd wr (s\<lparr>input_log := input_log s @ [evs]\<rparr>) of
        None \<Rightarrow> None
      | Some (Done, s1) \<Rightarrow>
          Some (reset_timer_first
            (if num_payloads s1 \<ge> max_pending_payloads
             then s1\<lparr>input_toggle := False, can_send := False\<rparr>
             else s1\<lparr>input_toggle := False\<rparr>))
      | Some (r, s1) \<Rightarrow> Some (leave r s1))"

definition on_read ::
  "error + (bytes \<times> bytes) \<Rightarrow> time \<Rightarrow> 'e PublishLoop \<Rightarrow> 'e PublishLoop option" where
  "on_read data now s =
     (case data of
        Inl err \<Rightarrow> Some (break_SelectLoop s)
      | Inr (signature, message) \<Rightarrow>
          (case (if signature = ''PONG'' then Some (processPong message s)
                 else if signature = ''ACKN'' then processAck message now s
                 else Some (Failed (UnknownMessage signature), s)) of
             None \<Rightarrow> None
           | Some (Done, s1) \<Rightarrow>
               if num_payloads s1 = 0 then
                 (if shutdown s1 then Some (break_PublishLoop s1) else Some s1)
               else Some (reset_timer_first s1)
           | Some (r, s1) \<Rightarrow> Some (leave r s1)))"

definition timer_idle :: "error option \<Rightarrow> 'e PublishLoop \<Rightarrow> 'e PublishLoop" where
  "timer_idle wr s =
     (if num_payloads s \<noteq> 0 \<or> \<not> input_toggle s then break_SelectLoop s
      else if pending_ping s then break_SelectLoop s
      else
        (case transport_Write ''PING'' None wr s of
           (Done, s1) \<Rightarrow> s1\<lparr>input_toggle := False\<rparr>
         | (r, s1) \<Rightarrow> leave r s1))"

definition on_timer ::
  "'e codec \<Rightarrow> time \<Rightarrow> error option \<Rightarrow> 'e PublishLoop \<Rightarrow> 'e PublishLoop option" where
  "on_timer L now wr s =
     (if out_of_sync s \<noteq> 0 then
        (case checkResend L now wr s of
           ((resent, Done), s1) \<Rightarrow> if resent then Some s1 else Some (timer_idle wr s1)
         | ((resent, r), s1) \<Rightarrow> Some (leave r s1))
      else Some (timer_idle wr s))"

definition on_shutdown :: "'e PublishLoop \<Rightarrow> 'e PublishLoop" where
  "on_shutdown s =
     (if num_payloads s = 0 then break_PublishLoop s else s\<lparr>shutdown := True\<rparr>)"

definition enter_SelectLoop :: "'e PublishLoop \<Rightarrow> 'e PublishLoop" where
  "enter_SelectLoop s = s\<lparr>can_send := True, input_toggle := False, control := InSelect\<rparr>"

definition on_connect_failed_shutdown :: "'e PublishLoop \<Rightarrow> 'e PublishLoop" where
  "on_connect_failed_shutdown s =
     (if num_payloads s = 0 then break_PublishLoop s
      else enter_SelectLoop (s\<lparr>shutdown := True\<rparr>))"

text \<open>
  An event that the program cannot take where it stands (a receive from a nil channel, a
  \<^verbatim>\<open>select\<close> case of the other loop, anything after the return) has no successor.
\<close>

fun step :: "'e codec \<Rightarrow> 'e event \<Rightarrow> 'e PublishLoop \<Rightarrow> 'e PublishLoop option" where
  "step L ConnectOk s =
     (if control s = AtConnect then Some (enter_SelectLoop (s\<lparr>transport_connected := True\<rparr>))
      else None)"
| "step L ConnectFailedWait s = (if control s = AtConnect then Some s else None)"
| "step L ConnectFailedShutdown s =
     (if control s = AtConnect then Some (on_connect_failed_shutdown s) else None)"
| "step L (CanSend now wr) s =
     (if control s = InSelect \<and> can_send s then on_can_send L now wr s else None)"
| "step L (Input evs rnd wr) s =
     (if control s = InSelect \<and> input_toggle s then on_input L evs rnd wr s else None)"
| "step L (Read data now) s = (if control s = InSelect then on_read data now s else None)"
| "step L (Timer now wr) s = (if control s = InSelect then on_timer L now wr s else None)"
| "step L Shutdown s = (if control s = InSelect then Some (on_shutdown s) else None)"

fun run :: "'e codec \<Rightarrow> 'e event list \<Rightarrow> 'e PublishLoop \<Rightarrow> 'e PublishLoop option" where
  "run L [] s = Some s"
| "run L (ev # evs) s = (case step L ev s of None \<Rightarrow> None | Some s' \<Rightarrow> run L evs s')"

section \<open>Vocabulary of the properties\<close>

text \<open>
  \<open>is_chain h p as\<close>: following \<^verbatim>\<open>next\<close> from the pointer \<open>p\<close> visits exactly the
  addresses \<open>as\<close>, in this order, and ends in nil.
\<close>

fun is_chain :: "'e PendingPayload list \<Rightarrow> addr option \<Rightarrow> addr list \<Rightarrow> bool" where
  "is_chain h p [] = (p = None)"
| "is_chain h p (a # as) = (p = Some a \<and> a < length h \<and> is_chain h (nextp (h ! a)) as)"

text \<open>
  The loop \<open>drain\<close> run along a given chain: the same branches, by recursion on the list
  of addresses. On a chain the loop returns, and returns this (lemma \<open>drain_drain_on\<close>).
\<close>

fun drain_on ::
  "addr list \<Rightarrow> int \<Rightarrow> ('e, 'z) Publisher_scheme \<Rightarrow> outcome \<times> ('e, 'z) Publisher_scheme" where
  "drain_on [] oos p = (Done, p)"
| "drain_on (pa # rest) oos p =
     (if ack_events (heap p ! pa) = 0 then (Done, p)
      else if ack_events (heap p ! pa) \<noteq> int (length (events (heap p ! pa))) then
        (if ack_events (heap p ! pa) < 0
            \<or> int (length (events (heap p ! pa))) < ack_events (heap p ! pa)
         then (Panicked, p)
         else (Done,
           p\<lparr>registrar_chan :=
                registrar_chan p @ [take (nat (ack_events (heap p ! pa))) (events (heap p ! pa))],
             heap := (heap p)[pa := (heap p ! pa)
               \<lparr>events := drop (nat (ack_events (heap p ! pa))) (events (heap p ! pa)),
                num_events := int (length (drop (nat (ack_events (heap p ! pa)))
                                             (events (heap p ! pa)))),
                ack_events := 0,
                payload_start := 0\<rparr>]\<rparr>))
      else
        drain_on rest (oos - 1)
          (p\<lparr>registrar_chan := registrar_chan p @ [events (heap p ! pa)],
             first_payload := nextp (heap p ! pa),
             num_payloads := num_payloads p - 1,
             out_of_sync := oos - 1,
             can_send := True\<rparr>))"

text \<open>
  The number of payloads strictly after the first one of the chain that have
  \<^verbatim>\<open>ack_events > 0\<close>.
\<close>

definition acked_after_first :: "'e PendingPayload list \<Rightarrow> addr list \<Rightarrow> int" where
  "acked_after_first h as = int (length (filter (\<lambda>a. 0 < ack_events (h ! a)) (tl as)))"

section \<open>Concrete runs\<close>

text \<open>
  Events are numbers here; the event \<open>0\<close> stands for an event whose mapping
  \<^verbatim>\<open>json.Marshal\<close> rejects. The compressor is left out (the identity).
\<close>

definition ex_codec :: "nat codec" where
  "ex_codec = \<lparr>json_Marshal = (\<lambda>host e. if e = 0 then None else Some ''{}''),
               zlib_compress = (\<lambda>b. b)\<rparr>"

definition ex_config :: NetworkConfig where
  "ex_config = \<lparr>Timeout = 15, Reconnect = 1\<rparr>"

text \<open>The sixteen draws \<open>k, \<dots>, k\<close> and the nonce they make.\<close>

definition ex_draws :: "nat \<Rightarrow> nat list" where
  "ex_draws k = replicate 16 k"

definition ex_nonce :: "nat \<Rightarrow> bytes" where
  "ex_nonce k = replicate 16 (char_of k)"

text \<open>The transport delivers an \<^verbatim>\<open>ACKN\<close> for nonce \<open>n\<close> with sequence \<open>q\<close>.\<close>

definition ACKN :: "bytes \<Rightarrow> 32 word \<Rightarrow> time \<Rightarrow> nat event" where
  "ACKN n q now = Read (Inr (''ACKN'', n @ PutUint32 q)) now"

definition ex_run :: "nat event list \<Rightarrow> nat PublishLoop" where
  "ex_run evs = the (run ex_codec evs (NewPublisher ex_config ''localhost.localdomain''))"

text \<open>Connect, then send the batch \<open>[1]\<close> and the batch \<open>[2, 3]\<close>.\<close>

definition two_batches :: "nat event list" where
  "two_batches =
     [ConnectOk, CanSend 0 None, Input [1] (ex_draws 1) None,
      CanSend 0 None, Input [2, 3] (ex_draws 2) None]"

text \<open>Further runs: each extends a connection on which batches were sent.\<close>

definition partial_ack_later :: "nat event list" where
  "partial_ack_later = two_batches @ [ACKN (ex_nonce 2) 1 0]"

definition out_of_order_ack :: "nat event list" where
  "out_of_order_ack = two_batches @ [ACKN (ex_nonce 2) 2 0]"

definition resend_after_reconnect :: "nat event list" where
  "resend_after_reconnect =
     out_of_order_ack @ [Read (Inl TransportError) 0, ConnectOk, CanSend 1 None]"

definition shutdown_while_reconnecting :: "nat event list" where
  "shutdown_while_reconnecting =
     [ConnectOk, CanSend 0 None, Input [1] (ex_draws 1) None,
      Read (Inl TransportError) 0, ConnectFailedShutdown]"

definition lost_batch :: "nat event list" where
  "lost_batch =
     [ConnectOk, CanSend 0 None, Input [0] (ex_draws 1) None,
      ConnectOk, CanSend 0 None, Input [1, 2] (ex_draws 2) None, ACKN (ex_nonce 2) 2 0]"

text \<open>
  Two acknowledgements for the second batch reach the publisher before any for the
  first: one for a part of it, then one for all of it.
\<close>

definition acked_twice :: "nat event list" where
  "acked_twice = two_batches @ [ACKN (ex_nonce 2) 1 0, ACKN (ex_nonce 2) 2 0]"

section \<open>Linked lists in the store\<close>

lemma is_chain_unique: "is_chain h p as \<Longrightarrow> is_chain h p bs \<Longrightarrow> as = bs"
proof (induction as arbitrary: p bs)
  case Nil
  then show ?case by (cases bs) auto
next
  case (Cons a as)
  then show ?case by (cases bs) auto
qed

lemma is_chain_bound: "is_chain h p as \<Longrightarrow> a \<in> set as \<Longrightarrow> a < length h"
  by (induction as arbitrary: p) auto

lemma is_chain_suffix:
  "is_chain h p (xs @ a # ys) \<Longrightarrow> is_chain h (Some a) (a # ys)"
  by (induction xs arbitrary: p) auto

lemma is_chain_head_notin:
  assumes "is_chain h (Some a) (a # as)"
  shows "a \<notin> set as"
proof
  assume "a \<in> set as"
  then obtain xs ys where split: "as = xs @ a # ys"
    by (auto simp: in_set_conv_decomp)
  with assms have "is_chain h (Some a) ((a # xs) @ a # ys)" by simp
  then have "is_chain h (Some a) (a # ys)" by (rule is_chain_suffix)
  with assms have "a # as = a # ys" by (rule is_chain_unique)
  with split show False by simp
qed

lemma is_chain_distinct: "is_chain h p as \<Longrightarrow> distinct as"
proof (induction as arbitrary: p)
  case Nil
  then show ?case by simp
next
  case (Cons a as)
  from Cons.prems have "is_chain h (Some a) (a # as)" by simp
  then have "a \<notin> set as" by (rule is_chain_head_notin)
  moreover from Cons have "distinct as" by auto
  ultimately show ?case by simp
qed

lemma is_chain_frame:
  "is_chain h p as \<Longrightarrow> length h \<le> length h' \<Longrightarrow>
   (\<And>a. a \<in> set as \<Longrightarrow> nextp (h' ! a) = nextp (h ! a)) \<Longrightarrow> is_chain h' p as"
  by (induction as arbitrary: p) auto

lemma is_chain_last_next: "is_chain h p as \<Longrightarrow> as \<noteq> [] \<Longrightarrow> nextp (h ! last as) = None"
  by (induction as arbitrary: p) (auto split: if_splits)

lemma is_chain_snoc:
  "is_chain h p as \<Longrightarrow> as \<noteq> [] \<Longrightarrow> length h \<le> length h' \<Longrightarrow> b < length h' \<Longrightarrow>
   (\<And>a. a \<in> set (butlast as) \<Longrightarrow> nextp (h' ! a) = nextp (h ! a)) \<Longrightarrow>
   nextp (h' ! last as) = Some b \<Longrightarrow> nextp (h' ! b) = None \<Longrightarrow>
   is_chain h' p (as @ [b])"
proof (induction as arbitrary: p)
  case Nil
  then show ?case by simp
next
  case (Cons a as)
  show ?case
  proof (cases "as = []")
    case True
    with Cons.prems show ?thesis by auto
  next
    case False
    with Cons.prems have "is_chain h' (nextp (h ! a)) (as @ [b])"
      by (intro Cons.IH) auto
    moreover from False Cons.prems have "nextp (h' ! a) = nextp (h ! a)" by auto
    ultimately show ?thesis using Cons.prems by auto
  qed
qed

lemma drain_drain_on:
  "is_chain (heap p) (Some pa) as \<Longrightarrow> drain pa oos p = Some (drain_on as oos p)"
proof (induction as arbitrary: pa oos p)
  case Nil
  then show ?case by simp
next
  case (Cons a as)
  from Cons.prems have a: "a = pa" "pa < length (heap p)"
    and rest: "is_chain (heap p) (nextp (heap p ! pa)) as" by auto
  show ?case
  proof (cases "nextp (heap p ! pa)")
    case None
    with rest have "as = []" by (cases as) auto
    with None a show ?thesis by (subst drain.simps) simp
  next
    case (Some pb)
    let ?p1 = "p\<lparr>registrar_chan := registrar_chan p @ [events (heap p ! pa)],
             first_payload := Some pb,
             num_payloads := num_payloads p - 1,
             out_of_sync := oos - 1,
             can_send := True\<rparr>"
    from rest Some have "is_chain (heap ?p1) (Some pb) as" by simp
    then have "drain pb (oos - 1) ?p1 = Some (drain_on as (oos - 1) ?p1)" by (rule Cons.IH)
    with Some a show ?thesis by (subst drain.simps) simp
  qed
qed


lemma drain_on_pending [simp]: "pending_payloads (snd (drain_on as oos p)) = pending_payloads p"
  by (induction as oos p rule: drain_on.induct) auto

lemma drain_on_length [simp]: "length (heap (snd (drain_on as oos p))) = length (heap p)"
  by (induction as oos p rule: drain_on.induct) auto

lemma drain_on_not_failed: "fst (drain_on as oos p) \<noteq> Failed err"
  by (induction as oos p rule: drain_on.induct) auto

lemma drain_on_heap_other:
  "a \<notin> set as \<Longrightarrow> heap (snd (drain_on as oos p)) ! a = heap p ! a"
  by (induction as oos p rule: drain_on.induct) auto

lemma drain_on_acked_head:
  "ack_events (heap p ! a) = int (length (events (heap p ! a))) \<Longrightarrow> a \<notin> set rest \<Longrightarrow>
   heap (snd (drain_on (a # rest) oos p)) ! a = heap p ! a"
  by (simp add: drain_on_heap_other)

lemma arm_first_timeout_fields:
  "arm_first_timeout now p = (r, p') \<Longrightarrow>
     (\<forall>err. r \<noteq> Failed err) \<and> pending_payloads p' = pending_payloads p
     \<and> length (heap p') = length (heap p)
     \<and> (a < length (heap p) \<longrightarrow> ack_events (heap p' ! a) = ack_events (heap p ! a)
          \<and> events (heap p' ! a) = events (heap p ! a)
          \<and> payload (heap p' ! a) = payload (heap p ! a))"
  by (auto simp: arm_first_timeout_def nth_list_update split: option.splits if_splits)

lemma nth_update_field: "f x = f (xs ! i) \<Longrightarrow> f (xs[i := x] ! a) = f (xs ! a)"
proof (cases "i < length xs")
  case True
  assume "f x = f (xs ! i)"
  with True show ?thesis by (cases "i = a") simp_all
next
  case False
  then show ?thesis by (simp add: list_update_beyond)
qed

lemma record_ack_nextp [simp]:
  "nextp (heap (record_ack n q pa p) ! a) = nextp (heap p ! a)"
  by (simp add: record_ack_def nth_update_field)

lemma record_ack_length [simp]: "length (heap (record_ack n q pa p)) = length (heap p)"
  by (simp add: record_ack_def)

lemma record_ack_first [simp]: "first_payload (record_ack n q pa p) = first_payload p"
  by (simp add: record_ack_def)


section \<open>A full acknowledgement\<close>

lemma processAck_full:
  assumes msg: "length message = 20"
    and found: "pending_payloads p (take 16 message) = Some pa"
    and valid: "pa < length (heap p)"
    and chain: "is_chain (heap p) (first_payload p) as"
    and full: "num_events (heap p ! pa) - payload_start (heap p ! pa)
                 \<le> uint (Uint32 (drop 16 message))"
  shows "\<exists>r p'. processAck message now p = Some (r, p') \<and> (\<forall>err. r \<noteq> Failed err)
           \<and> ack_events (heap p' ! pa) = int (length (events (heap p ! pa)))
           \<and> events (heap p' ! pa) = events (heap p ! pa)
           \<and> payload (heap p' ! pa) = None
           \<and> pending_payloads p' (take 16 message) = None"
proof -
  let ?p1 = "record_ack (take 16 message) (Uint32 (drop 16 message)) pa p"
  from full valid have p1: "ack_events (heap ?p1 ! pa) = int (length (events (heap p ! pa)))"
    "events (heap ?p1 ! pa) = events (heap p ! pa)" "payload (heap ?p1 ! pa) = None"
    "pending_payloads ?p1 (take 16 message) = None" "length (heap ?p1) = length (heap p)"
    "first_payload ?p1 = first_payload p"
    by (simp_all add: record_ack_def)
  have "\<exists>r2 p2. (if Some pa = first_payload p
                      then drain pa (out_of_sync p + 1) ?p1
                      else if ack_events (heap p ! pa) = 0
                      then Some (Done, ?p1\<lparr>out_of_sync := out_of_sync p + 1\<rparr>)
                      else Some (Done, ?p1)) = Some (r2, p2) \<and> (\<forall>err. r2 \<noteq> Failed err)
           \<and> ack_events (heap p2 ! pa) = int (length (events (heap p ! pa)))
           \<and> events (heap p2 ! pa) = events (heap p ! pa)
           \<and> payload (heap p2 ! pa) = None
           \<and> pending_payloads p2 (take 16 message) = None \<and> length (heap p2) = length (heap p)"
  proof (cases "Some pa = first_payload p")
    case True
    with chain obtain rest where as: "as = pa # rest" by (cases as) auto
    from chain True have "distinct as" by (auto dest: is_chain_distinct)
    with as have notin: "pa \<notin> set rest" by simp
    have "is_chain (heap ?p1) (Some pa) as"
      using chain True by (auto intro!: is_chain_frame [where h = "heap p"])
    then have d: "drain pa (out_of_sync p + 1) ?p1 = Some (drain_on as (out_of_sync p + 1) ?p1)"
      by (rule drain_drain_on)
    have "heap (snd (drain_on (pa # rest) (out_of_sync p + 1) ?p1)) ! pa = heap ?p1 ! pa"
      using p1 notin by (intro drain_on_acked_head) simp_all
    with True d as p1 show ?thesis
      by (cases "drain_on as (out_of_sync p + 1) ?p1")
         (use drain_on_not_failed [of as "out_of_sync p + 1" ?p1] 
              drain_on_pending [of as "out_of_sync p + 1" ?p1]
              drain_on_length [of as "out_of_sync p + 1" ?p1] in auto)
  next
    case False
    with p1 show ?thesis by auto
  qed
  then obtain r2 p2 where mid: "(if Some pa = first_payload p
                      then drain pa (out_of_sync p + 1) ?p1
                      else if ack_events (heap p ! pa) = 0
                      then Some (Done, ?p1\<lparr>out_of_sync := out_of_sync p + 1\<rparr>)
                      else Some (Done, ?p1)) = Some (r2, p2)" and r2: "\<forall>err. r2 \<noteq> Failed err"
    and p2: "ack_events (heap p2 ! pa) = int (length (events (heap p ! pa)))"
      "events (heap p2 ! pa) = events (heap p ! pa)" "payload (heap p2 ! pa) = None"
      "pending_payloads p2 (take 16 message) = None" "length (heap p2) = length (heap p)"
    by blast
  show ?thesis
  proof (cases r2)
    case Done
    obtain r3 p3 where arm: "arm_first_timeout now p2 = (r3, p3)" by (cases "arm_first_timeout now p2")
    from arm_first_timeout_fields [OF arm, of pa] p2 valid
    have "(\<forall>err. r3 \<noteq> Failed err) \<and> ack_events (heap p3 ! pa) = int (length (events (heap p ! pa)))
           \<and> events (heap p3 ! pa) = events (heap p ! pa)
           \<and> payload (heap p3 ! pa) = None
           \<and> pending_payloads p3 (take 16 message) = None" by simp
    moreover have "processAck message now p = Some (r3, p3)"
      using msg found valid mid Done arm by (simp add: processAck_def)
    ultimately show ?thesis by blast
  next
    case (Failed err)
    with r2 show ?thesis by simp
  next
    case Panicked
    have "processAck message now p = Some (Panicked, p2)"
      using msg found valid mid Panicked by (simp add: processAck_def)
    with p2 show ?thesis by auto
  qed
qed


text \<open>
  C7. An \<^verbatim>\<open>ACKN\<close> whose nonce is registered and whose sequence is at least
  \<^verbatim>\<open>num_events - payload_start\<close> should be taken as a full acknowledgement without
  any error. The fields are set as required (lemma \<open>processAck_full\<close>), but the call
  need not come back: after the run \<open>acked_twice\<close> the counter \<^verbatim>\<open>out_of_sync\<close> is 2
  although one payload only was acknowledged out of order. The full acknowledgement of the
  first payload (nonce registered at address 0, sequence 1, one event outstanding) then
  hands both batches to the registrar, leaves \<^verbatim>\<open>first_payload\<close> nil and
  \<^verbatim>\<open>out_of_sync\<close> at 1, and the last statement of \<^verbatim>\<open>processAck\<close> dereferences
  \<^verbatim>\<open>p.first_payload\<close>: the call panics and the event loop stops.
\<close>

theorem full_ack_panics:
  "pending_payloads (ex_run acked_twice) (take 16 (ex_nonce 1 @ PutUint32 1)) = Some 0
   \<and> first_payload (ex_run acked_twice) = Some 0
   \<and> out_of_sync (ex_run acked_twice) = 2
   \<and> num_events (heap (ex_run acked_twice) ! 0) - payload_start (heap (ex_run acked_twice) ! 0)
        \<le> uint (Uint32 (drop 16 (ex_nonce 1 @ PutUint32 1)))
   \<and> map_option fst (processAck (ex_nonce 1 @ PutUint32 1) 0 (ex_run acked_twice))
        = Some Panicked
   \<and> control (ex_run (acked_twice @ [ACKN (ex_nonce 1) 1 0])) = Crashed"
  by code_simp

section \<open>An acknowledgement for an unknown nonce\<close>

text \<open>
  C9. An \<^verbatim>\<open>ACKN\<close> of twenty bytes whose nonce is not a key of the registry makes
  \<^verbatim>\<open>processAck\<close> return without error and with the state as it was, the registrar
  channel included. In particular, once a full acknowledgement has been processed, the
  same message again changes nothing and sends nothing to the registrar.
\<close>

theorem stale_ack_ignored:
  assumes "length message = 20"
  shows "(pending_payloads p (take 16 message) = None
            \<longrightarrow> processAck message now p = Some (Done, p))
       \<and> (\<forall>pa as r p'. pending_payloads p (take 16 message) = Some pa
              \<and> pa < length (heap p) \<and> is_chain (heap p) (first_payload p) as
              \<and> num_events (heap p ! pa) - payload_start (heap p ! pa)
                   \<le> uint (Uint32 (drop 16 message))
              \<and> processAck message now p = Some (r, p')
            \<longrightarrow> processAck message now' p' = Some (Done, p'))"
proof (intro conjI allI impI)
  assume "pending_payloads p (take 16 message) = None"
  with assms show "processAck message now p = Some (Done, p)"
    by (simp add: processAck_def)
next
  fix pa as r p'
  assume h: "pending_payloads p (take 16 message) = Some pa
              \<and> pa < length (heap p) \<and> is_chain (heap p) (first_payload p) as
              \<and> num_events (heap p ! pa) - payload_start (heap p ! pa)
                   \<le> uint (Uint32 (drop 16 message))
              \<and> processAck message now p = Some (r, p')"
  with assms processAck_full [of message p pa as now]
  have "pending_payloads p' (take 16 message) = None" by auto
  with assms show "processAck message now' p' = Some (Done, p')"
    by (simp add: processAck_def)
qed

theorem stale_ack_ignored_witness:
  "pending_payloads (ex_run two_batches) (take 16 (ex_nonce 9 @ PutUint32 1)) = None
   \<and> processAck (ex_nonce 9 @ PutUint32 1) 0 (ex_run two_batches)
       = Some (Done, ex_run two_batches)
   \<and> pending_payloads (ex_run two_batches) (take 16 (ex_nonce 1 @ PutUint32 1)) = Some 0
   \<and> (\<exists>r p'. processAck (ex_nonce 1 @ PutUint32 1) 0 (ex_run two_batches) = Some (r, p')
         \<and> registrar_chan p' = [[1]]
         \<and> processAck (ex_nonce 1 @ PutUint32 1) 1 p' = Some (Done, p'))"
proof -
  have l9: "length (ex_nonce 9 @ PutUint32 1) = 20" by code_simp
  have l1: "length (ex_nonce 1 @ PutUint32 1) = 20" by code_simp
  have miss: "pending_payloads (ex_run two_batches) (take 16 (ex_nonce 9 @ PutUint32 1)) = None"
    by code_simp
  have hit: "pending_payloads (ex_run two_batches) (take 16 (ex_nonce 1 @ PutUint32 1)) = Some 0"
    by code_simp
  have valid: "0 < length (heap (ex_run two_batches))" by code_simp
  have chain: "is_chain (heap (ex_run two_batches)) (first_payload (ex_run two_batches)) [0, 1]"
    by code_simp
  have full: "num_events (heap (ex_run two_batches) ! 0)
                - payload_start (heap (ex_run two_batches) ! 0)
                \<le> uint (Uint32 (drop 16 (ex_nonce 1 @ PutUint32 1)))" by code_simp
  have sent: "map_option (\<lambda>(r, p'). registrar_chan p')
                (processAck (ex_nonce 1 @ PutUint32 1) 0 (ex_run two_batches)) = Some [[1]]"
    by code_simp
  then obtain r p' where
    ack: "processAck (ex_nonce 1 @ PutUint32 1) 0 (ex_run two_batches) = Some (r, p')"
    and chan: "registrar_chan p' = [[1]]" by auto
  from stale_ack_ignored [OF l9, of "ex_run two_batches" 0] miss
  have a: "processAck (ex_nonce 9 @ PutUint32 1) 0 (ex_run two_batches)
             = Some (Done, ex_run two_batches)" by blast
  from stale_ack_ignored [OF l1, of "ex_run two_batches" 0 1] hit valid chain full ack
  have b: "processAck (ex_nonce 1 @ PutUint32 1) 1 p' = Some (Done, p')" by blast
  from miss a hit ack chan b show ?thesis by blast
qed

section \<open>The counter of payloads acknowledged out of order\<close>

text \<open>
  C2. After every operation \<^verbatim>\<open>out_of_sync\<close> should be the number of payloads after
  the first one that have \<^verbatim>\<open>ack_events > 0\<close>. It is not: an acknowledgement for one
  event of the second batch \<open>[2, 3]\<close> records nothing (the test
  \<^verbatim>\<open>int(sequence) > payload.num_events - payload.ack_events\<close> compares 1 with 2), yet
  the counter is incremented. After the run \<open>partial_ack_later\<close> the list holds the
  payloads at 0 and 1, none of them has \<^verbatim>\<open>ack_events > 0\<close>, and \<^verbatim>\<open>out_of_sync\<close>
  is 1.
\<close>

theorem out_of_sync_overcounts:
  "is_chain (heap (ex_run partial_ack_later)) (first_payload (ex_run partial_ack_later)) [0, 1]
   \<and> ack_events (heap (ex_run partial_ack_later) ! 1) = 0
   \<and> acked_after_first (heap (ex_run partial_ack_later)) [0, 1] = 0
   \<and> out_of_sync (ex_run partial_ack_later) = 1"
  by code_simp

section \<open>A failed connection attempt\<close>

text \<open>
  C8. After \<^verbatim>\<open>transport.Connect\<close> has failed the publisher should not enter the inner
  loop before a later attempt has succeeded. In the run \<open>shutdown_while_reconnecting\<close>
  one batch is pending when the connection breaks; the next attempt fails and the
  shutdown signal arrives during the wait. With a payload pending, the case sets
  \<^verbatim>\<open>shutdown\<close> and falls out of the \<^verbatim>\<open>if\<close>: the publisher takes the credit channel
  of the transport and waits in the inner \<^verbatim>\<open>select\<close>, the transport not connected.
\<close>

theorem select_loop_without_connection:
  "control (ex_run shutdown_while_reconnecting) = InSelect
   \<and> can_send (ex_run shutdown_while_reconnecting)
   \<and> \<not> transport_connected (ex_run shutdown_while_reconnecting)
   \<and> shutdown (ex_run shutdown_while_reconnecting)
   \<and> num_payloads (ex_run shutdown_while_reconnecting) = 1"
  by code_simp

section \<open>The deadline read by checkResend\<close>

text \<open>
  C10. Whenever the loop calls \<^verbatim>\<open>checkResend\<close>, \<^verbatim>\<open>first_payload\<close> and its
  \<^verbatim>\<open>timeout\<close> should not be nil. In the run \<open>resend_after_reconnect\<close> the second
  batch is acknowledged before the first (\<^verbatim>\<open>out_of_sync\<close> becomes 1 and the first
  payload gets a deadline), the connection breaks, and after the reconnection the first
  payload is sent again, which sets its \<^verbatim>\<open>timeout\<close> to nil. The payload after it is
  fully acknowledged, so \<^verbatim>\<open>retry_payload\<close> is nil from then on. The next credit of the
  transport, or the next tick of the timer, calls \<^verbatim>\<open>checkResend\<close> with
  \<^verbatim>\<open>out_of_sync\<close> at 1 and the deadline nil: \<^verbatim>\<open>payload.timeout.Before\<close> panics.
\<close>

theorem checkResend_nil_deadline:
  "control (ex_run resend_after_reconnect) = InSelect
   \<and> can_send (ex_run resend_after_reconnect)
   \<and> out_of_sync (ex_run resend_after_reconnect) = 1
   \<and> retry_payload (ex_run resend_after_reconnect) = None
   \<and> first_payload (ex_run resend_after_reconnect) = Some 0
   \<and> timeout (heap (ex_run resend_after_reconnect) ! 0) = None
   \<and> snd (fst (checkResend ex_codec 2 None (ex_run resend_after_reconnect))) = Panicked
   \<and> control (ex_run (resend_after_reconnect @ [CanSend 2 None])) = Crashed
   \<and> control (ex_run (resend_after_reconnect @ [Timer 2 None])) = Crashed"
  by code_simp

section \<open>An event that cannot be encoded\<close>

lemma buffer_events_unencodable:
  "e \<in> set evs \<Longrightarrow> json_Marshal L host e = None \<Longrightarrow>
   buffer_events L host evs = Inl BinaryWriteInvalidType"
proof (induction evs)
  case Nil
  then show ?case by simp
next
  case (Cons x xs)
  show ?case
  proof (cases "json_Marshal L host x")
    case None
    then show ?thesis by (simp add: bufferJdatDataEvent_def)
  next
    case (Some val)
    with Cons.prems have "e \<in> set xs" by auto
    with Cons have "buffer_events L host xs = Inl BinaryWriteInvalidType" by simp
    with Some show ?thesis by (simp add: bufferJdatDataEvent_def)
  qed
qed

text \<open>
  C6. An event that \<^verbatim>\<open>json.Marshal\<close> rejects should be written as the length 2 and
  the body \<^verbatim>\<open>{}\<close>, and the frame should be completed. The length is passed to
  \<^verbatim>\<open>binary.Write\<close> as the untyped constant \<^verbatim>\<open>2\<close>, which arrives as an \<^verbatim>\<open>int\<close>;
  \<^verbatim>\<open>binary.Write\<close> refuses it. So whenever one of the events still to be sent cannot
  be encoded, \<^verbatim>\<open>Generate\<close> returns that error and leaves the payload without a frame.
\<close>

theorem unencodable_event_fails_frame:
  assumes "0 \<le> ack_events pp" and "ack_events pp \<le> int (length (events pp))"
    and "e \<in> set (drop (nat (ack_events pp)) (events pp))"
    and "json_Marshal L host e = None"
  shows "Generate L host pp = (Failed BinaryWriteInvalidType, pp)"
  using assms buffer_events_unencodable [of e "drop (nat (ack_events pp)) (events pp)" L host]
  by (simp add: Generate_def)

theorem unencodable_event_fails_frame_witness:
  "json_Marshal ex_codec ''h'' 0 = None
   \<and> NewPendingPayload ex_codec [1, 0, 2] (ex_nonce 1) ''h''
       = (Failed BinaryWriteInvalidType,
          \<lparr>nextp = None, nonce = ex_nonce 1, events = [1, 0, 2], num_events = 3,
           ack_events = 0, payload_start = 0, payload = None, timeout = None\<rparr>)"
  using unencodable_event_fails_frame [of
    "\<lparr>nextp = None, nonce = ex_nonce 1, events = [1, 0, 2], num_events = 3,
           ack_events = 0, payload_start = 0, payload = None, timeout = None\<rparr>" 0 ex_codec "''h''"]
  by (simp add: NewPendingPayload_def ex_codec_def)

section \<open>The order of events at the registrar\<close>

text \<open>
  C1. What the registrar receives should be, in order, a prefix of what came in on the
  input channel. In the run \<open>lost_batch\<close> the first batch holds an event that cannot be
  encoded: \<^verbatim>\<open>sendNewPayload\<close> returns the error of \<^verbatim>\<open>Generate\<close> before the batch
  is stored, and the loop reconnects without it. The second batch \<open>[1, 2]\<close> is sent and
  acknowledged, and the registrar receives \<open>[1, 2]\<close> although \<open>[0]\<close> came in first.
\<close>

theorem batch_lost_before_registrar:
  "input_log (ex_run lost_batch) = [[0], [1, 2]]
   \<and> registrar_chan (ex_run lost_batch) = [[1, 2]]
   \<and> num_payloads (ex_run lost_batch) = 0
   \<and> \<not> prefix (concat (registrar_chan (ex_run lost_batch)))
                (concat (input_log (ex_run lost_batch)))"
  by code_simp

end
